theory Spec2Isabelle
  imports Main "HOL-Library.Word"
begin

section \<open>Go strings and formatting verbs\<close>

text \<open>
  A Go string is a sequence of bytes: \<open>string\<close>. The two characters that cannot be
  written inside an Isabelle string literal get names.
\<close>

definition dquote :: char where
  "dquote = CHR 0x22"

definition backslash :: char where
  "backslash = CHR 0x5C"

text \<open>The verb \<open>%d\<close>: minimal decimal form, with a sign for negative numbers.\<close>

definition digitChar :: "nat \<Rightarrow> char" where
  "digitChar n = ''0123456789'' ! (n mod 10)"

function formatNat :: "nat \<Rightarrow> string" where
  "formatNat n = (if n < 10 then [digitChar n] else formatNat (n div 10) @ [digitChar n])"
  by pat_completeness auto
termination
  by (relation "measure id") auto

declare formatNat.simps [simp del]

definition formatInt :: "int \<Rightarrow> string" where
  "formatInt i = (if i < 0 then CHR ''-'' # formatNat (nat (- i)) else formatNat (nat i))"

text \<open>
  The verb \<open>%q\<close> is \<open>strconv.Quote\<close>: a double-quoted Go string literal. A byte below
  \<open>0x80\<close> is one rune; the quote and the backslash are backslashed, the printable ones
  (\<open>0x20\<close> to \<open>0x7e\<close>) are copied, seven control characters have a letter escape and the
  other control characters and \<open>0x7f\<close> are written \<open>\xNN\<close>.
\<close>

definition lowerhex :: "nat \<Rightarrow> char" where
  "lowerhex n = ''0123456789abcdef'' ! (n mod 16)"

definition appendEscapedRune :: "char \<Rightarrow> string" where
  "appendEscapedRune c =
     (let r = (of_char c :: nat) in
      if c = dquote \<or> c = backslash then [backslash, c]
      else if 0x20 \<le> r \<and> r < 0x7F then [c]
      else if r = 7 then [backslash, CHR ''a'']
      else if r = 8 then [backslash, CHR ''b'']
      else if r = 12 then [backslash, CHR ''f'']
      else if r = 10 then [backslash, CHR ''n'']
      else if r = 13 then [backslash, CHR ''r'']
      else if r = 9 then [backslash, CHR ''t'']
      else if r = 11 then [backslash, CHR ''v'']
      else [backslash, CHR ''x'', lowerhex (r div 16), lowerhex r])"

text \<open>
  From a byte \<open>0x80\<close> or above, \<open>strconv.Quote\<close> decodes one UTF-8 sequence and consults
  the Unicode tables: that part of the Go library is the parameter \<open>mb\<close>, which gets the
  rest of the string and returns the text written and the number of bytes consumed (at
  least one is consumed whatever \<open>mb\<close> says).
\<close>

type_synonym multibyte = "string \<Rightarrow> string \<times> nat"

function appendQuoted :: "multibyte \<Rightarrow> string \<Rightarrow> string" where
  "appendQuoted mb [] = []"
| "appendQuoted mb (c # cs) =
     (if (of_char c :: nat) < 0x80 then appendEscapedRune c @ appendQuoted mb cs
      else fst (mb (c # cs)) @ appendQuoted mb (drop (snd (mb (c # cs)) - 1) cs))"
  by pat_completeness auto
termination
  by (relation "measure (\<lambda>(mb, s). length s)") auto

definition Quote :: "multibyte \<Rightarrow> string \<Rightarrow> string" where
  "Quote mb s = dquote # appendQuoted mb s @ [dquote]"

definition Join :: "string list \<Rightarrow> string \<Rightarrow> string" where
  "Join elems sep = (case elems of [] \<Rightarrow> [] | e # es \<Rightarrow> e @ concat (map (\<lambda>x. sep @ x) es))"

section \<open>The response framer\<close>

text \<open>
  An \<open>error\<close> value is modelled by its message, the result of \<open>err.Error()\<close>.
  \<open>GenerateResponse_errors\<close> is the \<open>for i, err := range errors\<close> loop of
  \<open>GenerateResponse\<close>, with the index \<open>i\<close> and the string built so far.
\<close>

fun GenerateResponse_errors :: "multibyte \<Rightarrow> nat \<Rightarrow> string list \<Rightarrow> string \<Rightarrow> string" where
  "GenerateResponse_errors mb i [] res = res"
| "GenerateResponse_errors mb i (err # errs) res =
     GenerateResponse_errors mb (i + 1) errs
       ((if i > 0 then res @ '','' else res) @ ''{\"message\":'' @ Quote mb err @ ''}'')"

definition GenerateResponse :: "multibyte \<Rightarrow> string \<Rightarrow> string list \<Rightarrow> string" where
  "GenerateResponse mb data errors =
     (let res = ''{\"data\":'' @ data;
          res = (if length errors > 0
                 then GenerateResponse_errors mb 0 errors (res @ ''\"errors\":['') @ '']''
                 else res)
      in res @ ''}'')"

section \<open>Reflection: kinds and values\<close>

text \<open>The kinds of \<open>reflect.Kind\<close>, in the order of the Go library: \<open>KInt\<close> is
  \<open>reflect.Int\<close>.\<close>

datatype kind = KInvalid | KBool | KInt | KInt8 | KInt16 | KInt32 | KInt64
  | KUint | KUint8 | KUint16 | KUint32 | KUint64 | KUintptr
  | KFloat32 | KFloat64 | KComplex64 | KComplex128
  | KArray | KChan | KFunc | KInterface | KMap | KPtr | KSlice | KString | KStruct | KUnsafePointer

text \<open>
  The element type of a nil pointer, as far as a type switch can tell: one of the
  predeclared types (\<open>bool\<close>, \<open>int\<close>, ..., \<open>string\<close>), given by its kind, or any other
  type (named, composite).
\<close>

datatype gtype = Predeclared kind | OtherType

text \<open>
  The values a method receives: the fields of its parameter records after the query's
  arguments have been assigned. \<open>IZero\<close> is the zero value of the slot's type (also the
  nil pointer and the nil slice), \<open>ICtx\<close> the injected context. An integer slot holds
  the value after the conversion to the slot's width; a float slot keeps the integer or
  the \<open>float64\<close> assigned, together with the slot's kind.
\<close>

datatype ival = IZero | ICtx | IBool bool | IInt int | IUint int
  | IFloatOfInt kind int | IFloat kind "64 word" | IString string
  | IPtr ival | ISlice "ival list" | IStruct "(string \<times> ival) list"

text \<open>
  A \<open>reflect.Value\<close> (and, for \<open>valueToJson\<close>, the dynamic value of an
  \<open>interface{}\<close>): \<open>GInvalid\<close> is the zero \<open>reflect.Value\<close>; integers have their width
  (\<open>int\<close>, \<open>uint\<close> and \<open>uintptr\<close> are 64 bits wide); a pointer is nil, with its element
  type, or points to a value; a struct has its fields and the methods
  \<open>MethodByName\<close> finds; a function value is nil or maps the argument values to the
  results; \<open>GInterface\<close> is a value of interface kind, nil or holding a dynamic value;
  \<open>GError\<close> a dynamic value that implements \<open>error\<close>, with its message; \<open>GNamed\<close> a
  value of a defined type (\<open>type ID string\<close>) over its underlying value.
\<close>

datatype gvalue = GInvalid
  | GString string | GBool bool
  | GInt "64 word" | GInt8 "8 word" | GInt16 "16 word" | GInt32 "32 word" | GInt64 "64 word"
  | GUint "64 word" | GUint8 "8 word" | GUint16 "16 word" | GUint32 "32 word"
  | GUint64 "64 word" | GUintptr "64 word"
  | GFloat32 "32 word" | GFloat64 "64 word"
  | GNilPtr gtype | GPtrTo gvalue
  | GSlice "gvalue list option" | GArray "gvalue list"
  | GStruct "(string \<times> gvalue) list" "(string \<times> gvalue) list"
  | GFunc "(ival list \<Rightarrow> gvalue list) option"
  | GInterface "gvalue option"
  | GError string
  | GNamed string gvalue

fun underlying :: "gvalue \<Rightarrow> gvalue" where
  "underlying (GNamed n v) = underlying v"
| "underlying v = v"

fun Kind :: "gvalue \<Rightarrow> kind" where
  "Kind GInvalid = KInvalid"
| "Kind (GString s) = KString"
| "Kind (GBool b) = KBool"
| "Kind (GInt w) = KInt"
| "Kind (GInt8 w) = KInt8"
| "Kind (GInt16 w) = KInt16"
| "Kind (GInt32 w) = KInt32"
| "Kind (GInt64 w) = KInt64"
| "Kind (GUint w) = KUint"
| "Kind (GUint8 w) = KUint8"
| "Kind (GUint16 w) = KUint16"
| "Kind (GUint32 w) = KUint32"
| "Kind (GUint64 w) = KUint64"
| "Kind (GUintptr w) = KUintptr"
| "Kind (GFloat32 w) = KFloat32"
| "Kind (GFloat64 w) = KFloat64"
| "Kind (GNilPtr t) = KPtr"
| "Kind (GPtrTo v) = KPtr"
| "Kind (GSlice xs) = KSlice"
| "Kind (GArray xs) = KArray"
| "Kind (GStruct fs ms) = KStruct"
| "Kind (GFunc f) = KFunc"
| "Kind (GInterface v) = KInterface"
| "Kind (GError m) = KPtr"
| "Kind (GNamed n v) = Kind v"

text \<open>
  \<open>reflect.Value.IsNil\<close> panics unless the kind is chan, func, interface, map, pointer
  or slice: \<open>None\<close> is the panic.
\<close>

fun IsNil :: "gvalue \<Rightarrow> bool option" where
  "IsNil (GNilPtr t) = Some True"
| "IsNil (GPtrTo v) = Some False"
| "IsNil (GSlice xs) = Some (Option.is_none xs)"
| "IsNil (GFunc f) = Some (Option.is_none f)"
| "IsNil (GInterface v) = Some (Option.is_none v)"
| "IsNil (GError m) = Some False"
| "IsNil (GNamed n v) = IsNil v"
| "IsNil v = None"

text \<open>\<open>FieldByName\<close> panics on a value that is not a struct; a missing field is the zero Value.\<close>

definition FieldByName :: "gvalue \<Rightarrow> string \<Rightarrow> gvalue option" where
  "FieldByName v n =
     (case underlying v of
        GStruct fs ms \<Rightarrow> Some (case map_of fs n of None \<Rightarrow> GInvalid | Some x \<Rightarrow> x)
      | _ \<Rightarrow> None)"

definition MethodByName :: "gvalue \<Rightarrow> string \<Rightarrow> gvalue" where
  "MethodByName v n =
     (case underlying v of
        GStruct fs ms \<Rightarrow> (case map_of ms n of None \<Rightarrow> GInvalid | Some x \<Rightarrow> x)
      | _ \<Rightarrow> GInvalid)"

text \<open>
  \<open>KInterface()\<close> panics on the zero Value; on a value of interface kind it is the dynamic
  value, and the nil interface stays \<open>GInterface None\<close>.
\<close>

definition Interface_of :: "gvalue \<Rightarrow> gvalue option" where
  "Interface_of v =
     (case v of GInvalid \<Rightarrow> None | GInterface (Some d) \<Rightarrow> Some d | _ \<Rightarrow> Some v)"

text \<open>\<open>Call\<close> panics on anything but a non-nil function.\<close>

definition Call :: "gvalue \<Rightarrow> ival list \<Rightarrow> gvalue list option" where
  "Call v inputs = (case underlying v of GFunc (Some f) \<Rightarrow> Some (f inputs) | _ \<Rightarrow> None)"

text \<open>The type assertion \<open>.(error)\<close>: the message when the dynamic value implements \<open>error\<close>.\<close>

definition asError :: "gvalue \<Rightarrow> string option" where
  "asError v = (case v of GError m \<Rightarrow> Some m | _ \<Rightarrow> None)"

section \<open>The JSON serialiser\<close>

text \<open>
  The enum registry \<open>definedEnums\<close> is a global of the package, and \<open>floatToJson\<close> a
  function of another file of it: both are parameters here, with the conversion
  \<open>float64(v)\<close> of a \<open>float32\<close> and the multibyte part of \<open>strconv.Quote\<close>.
\<close>

record enum =
  keyValue :: "(string \<times> gvalue) list"
  valueKey :: "(gvalue \<times> string) list"

text \<open>
  \<open>MapIndex\<close> on the map \<open>valueKey\<close> of an enum, whose keys are of a scalar type.
  Two keys are the same when they have the same type and the same content:
  \<open>scalarKey\<close> gives the names of the defined types around a scalar, its kind and its
  content (the text of a string, the number otherwise), and nothing for other values.
\<close>

fun scalarKey :: "gvalue \<Rightarrow> (string list \<times> kind \<times> string \<times> int) option" where
  "scalarKey (GString a) = Some ([], KString, a, 0)"
| "scalarKey (GBool a) = Some ([], KBool, [], if a then 1 else 0)"
| "scalarKey (GInt a) = Some ([], KInt, [], sint a)"
| "scalarKey (GInt8 a) = Some ([], KInt8, [], sint a)"
| "scalarKey (GInt16 a) = Some ([], KInt16, [], sint a)"
| "scalarKey (GInt32 a) = Some ([], KInt32, [], sint a)"
| "scalarKey (GInt64 a) = Some ([], KInt64, [], sint a)"
| "scalarKey (GUint a) = Some ([], KUint, [], uint a)"
| "scalarKey (GUint8 a) = Some ([], KUint8, [], uint a)"
| "scalarKey (GUint16 a) = Some ([], KUint16, [], uint a)"
| "scalarKey (GUint32 a) = Some ([], KUint32, [], uint a)"
| "scalarKey (GUint64 a) = Some ([], KUint64, [], uint a)"
| "scalarKey (GUintptr a) = Some ([], KUintptr, [], uint a)"
| "scalarKey (GFloat32 a) = Some ([], KFloat32, [], uint a)"
| "scalarKey (GFloat64 a) = Some ([], KFloat64, [], uint a)"
| "scalarKey (GNamed n a) = map_option (\<lambda>(ns, r). (n # ns, r)) (scalarKey a)"
| "scalarKey a = None"

definition sameKey :: "gvalue \<Rightarrow> gvalue \<Rightarrow> bool" where
  "sameKey a b = (case scalarKey a of None \<Rightarrow> False | Some k \<Rightarrow> scalarKey b = Some k)"

fun MapIndex :: "(gvalue \<times> string) list \<Rightarrow> gvalue \<Rightarrow> string option" where
  "MapIndex [] v = None"
| "MapIndex ((k, x) # rest) v = (if sameKey k v then Some x else MapIndex rest v)"

record env =
  definedEnums :: "(string \<times> enum) list"
  floatToJson :: "nat \<Rightarrow> 64 word \<Rightarrow> string"
  float64 :: "32 word \<Rightarrow> 64 word"
  multibyte :: multibyte

definition invalidDataType :: "string \<times> string option" where
  "invalidDataType = (''null'', Some ''invalid data type'')"

text \<open>The types named by the cases of the type switch, and the values of these types.\<close>

definition switchKind :: "kind \<Rightarrow> bool" where
  "switchKind k = (k \<in> {KString, KBool, KInt, KInt8, KInt16, KInt32, KInt64, KUint, KUint8, KUint16,
     KUint32, KUint64, KUintptr, KFloat32, KFloat64})"

fun switchType :: "gtype \<Rightarrow> bool" where
  "switchType (Predeclared k) = switchKind k"
| "switchType OtherType = False"

fun switchValue :: "gvalue \<Rightarrow> bool" where
  "switchValue (GNamed n v) = False"
| "switchValue (GError m) = False"
| "switchValue v = switchKind (Kind v)"

fun valueToJson :: "env \<Rightarrow> gvalue \<Rightarrow> string \<times> string option" where
  "valueToJson e (GString v) = (Quote (multibyte e) v, None)"
| "valueToJson e (GBool v) = (if v then (''true'', None) else (''false'', None))"
| "valueToJson e (GInt v) = (formatInt (sint v), None)"
| "valueToJson e (GInt8 v) = (formatInt (sint v), None)"
| "valueToJson e (GInt16 v) = (formatInt (sint v), None)"
| "valueToJson e (GInt32 v) = (formatInt (sint v), None)"
| "valueToJson e (GInt64 v) = (formatInt (sint v), None)"
| "valueToJson e (GUint v) = (formatInt (uint v), None)"
| "valueToJson e (GUint8 v) = (formatInt (uint v), None)"
| "valueToJson e (GUint16 v) = (formatInt (uint v), None)"
| "valueToJson e (GUint32 v) = (formatInt (uint v), None)"
| "valueToJson e (GUint64 v) = (formatInt (uint v), None)"
| "valueToJson e (GUintptr v) = (formatInt (uint v), None)"
| "valueToJson e (GFloat32 v) = (floatToJson e 32 (float64 e v), None)"
| "valueToJson e (GFloat64 v) = (floatToJson e 64 v, None)"
| "valueToJson e (GNilPtr t) = (if switchType t then (''null'', None) else invalidDataType)"
| "valueToJson e (GPtrTo v) = (if switchValue v then valueToJson e v else invalidDataType)"
| "valueToJson e v = invalidDataType"

section \<open>The parsed document\<close>

text \<open>
  The types of the parser, as the executor reads them. A Go map is the list of its
  entries in the order in which this run iterates over it (Go leaves that order open), so a
  statement for every list is a statement for every iteration order; the keys of a map are
  distinct.

  \<open>Value\<close> is the parsed literal of an argument: the struct of flags and payloads of
  the source, the tag \<open>valType\<close> being the \<open>reflect.Kind\<close> the parser assigned.
\<close>

datatype Value = MkValue (isVar: bool) (isNull: bool) (isEnum: bool) (enumValue: string)
  (valType: kind) (intValue: int) (floatValue: "64 word") (stringValue: string)
  (booleanValue: bool) (listValue: "Value list") (objectValue: "(string \<times> Value) list")

text \<open>
  A selection is tagged by its \<open>selectionType\<close>: a field, the name of a fragment spread
  or the selection set of an inline fragment.
\<close>

datatype Selection = Field Field | FragmentSpread string | InlineFragment "Selection list"
  and Field = MkField (name: string) (fieldAlias: string) (selection: "Selection list")
    (arguments: "(string \<times> Value) list")

type_synonym SelectionSet = "Selection list"

text \<open>
  Of a directive only its name is kept. The entries of \<open>ctx.fragments\<close> are operators
  whose \<open>fragment\<close> pointer leads to the fragment's selection set (\<open>None\<close> is nil).
\<close>

type_synonym Directives = "string list"

record Operator =
  operationType :: string
  directives :: Directives
  selection :: SelectionSet
  fragment :: "SelectionSet option"

section \<open>The reflected schema\<close>

text \<open>
  \<open>Input\<close> describes the type of an argument slot; \<open>elem\<close> is a pointer (\<open>None\<close> is
  nil) and \<open>structContent\<close> a map.
\<close>

datatype Input = MkInput (kind: kind) (isEnum: bool) (enumKey: string) (elem: "Input option")
  (isStructPointers: bool) (structName: string) (structContent: "(string \<times> Input) list")
  (goFieldName: string)

record referToInput =
  inputIdx :: nat
  input :: Input

text \<open>
  Modelled from the spec: the constants \<open>valueTypeData\<close> ... \<open>valueTypeEnum\<close> are declared
  in a file that is not part of the sources; section 3 of the specification lists them,
  and \<open>valueTypeUndefined\<close> stands for any value the switch of
  \<open>resolveFieldDataValue\<close> sends to its default branch.
\<close>

datatype valueType = valueTypeUndefined | valueTypeArray | valueTypeObj | valueTypeObjRef
  | valueTypeData | valueTypePtr | valueTypeMethod | valueTypeEnum

text \<open>
  \<open>Obj\<close> describes an output type and \<open>objMethod\<close> a method. The pointers
  \<open>innerContent\<close>, \<open>methodPtr\<close> (the field \<open>method\<close> of the source, a name taken
  in Isabelle), \<open>customObjValue\<close> and \<open>errorOutNr\<close> are nil for
  some objects: they are options. A parameter group \<open>in\<close> of a method is kept as its flag
  \<open>isCtx\<close>, since the zero value of its type is \<open>IZero\<close> whatever the type.
\<close>

datatype Obj = MkObj (typeName: string) (valueType: valueType)
    (objContents: "(string \<times> Obj) list")
    (innerContent: "Obj option") (methodPtr: "objMethod option")
    (enumKey: string) (structFieldName: string) (customObjValue: "gvalue option")
  and objMethod = MkObjMethod (ins: "bool list") (inFields: "(string \<times> referToInput) list")
    (errorOutNr: "nat option") (outNr: nat) (outType: Obj) (isTypeMethod: bool)

record Schema =
  rootQuery :: Obj
  rootMethod :: Obj
  rootQueryValue :: gvalue
  types :: "(string \<times> Obj) list"
  inTypes :: "(string \<times> Input) list"
  MaxDepth :: "8 word"

text \<open>
  The execution context. \<open>errors\<close> holds the messages of the errors recorded so far.
  \<open>calls\<close> is not a field of the source: it records every \<open>value.Call(inputs)\<close> the
  executor makes, with the name of the queried field and the arguments, so that the
  invocation of a method is a statement about the state.
\<close>

record Ctx =
  fragments :: "(string \<times> Operator) list"
  schema :: Schema
  directvies :: "Directives list"
  errors :: "string list"
  calls :: "(string \<times> ival list) list"

definition addErr :: "Ctx \<Rightarrow> string \<Rightarrow> Ctx" where
  "addErr ctx err = ctx\<lparr>errors := errors ctx @ [err]\<rparr>"

section \<open>Input coercion\<close>

text \<open>The table \<open>m\<close> of \<open>mismatchError\<close>.\<close>

fun kindName :: "kind \<Rightarrow> string" where
  "kindName KInvalid = ''an unknown type''"
| "kindName KBool = ''a boolean''"
| "kindName KFloat32 = ''a float''"
| "kindName KFloat64 = ''a float''"
| "kindName KArray = ''an array''"
| "kindName KChan = ''an unknown type''"
| "kindName KFunc = ''an unknown type''"
| "kindName KInterface = ''an unknown type''"
| "kindName KMap = ''an unknown type''"
| "kindName KPtr = ''optional type''"
| "kindName KSlice = ''an array''"
| "kindName KString = ''a string''"
| "kindName KStruct = ''a object''"
| "kindName k = ''a number''"

text \<open>
  \<open>mismatchError\<close> reads the kind of the slot \<open>goField\<close> under its pointers. The slot
  has the type its \<open>Input\<close> describes, so where the error is built this is
  \<open>goFieldKind\<close>, the kind of the \<open>Input\<close>, which is not \<open>KPtr\<close> there.
\<close>

definition mismatchError :: "kind \<Rightarrow> string" where
  "mismatchError goFieldKind = ''function arguments type missmatch expected '' @ kindName goFieldKind"

definition intKind :: "kind \<Rightarrow> bool" where
  "intKind k = (k \<in> {KInt, KInt8, KInt16, KInt32, KInt64})"

definition uintKind :: "kind \<Rightarrow> bool" where
  "uintKind k = (k \<in> {KUint, KUint8, KUint16, KUint32, KUint64})"

definition floatKind :: "kind \<Rightarrow> bool" where
  "floatKind k = (k \<in> {KFloat32, KFloat64})"

fun kindBits :: "kind \<Rightarrow> nat" where
  "kindBits KInt8 = 8"
| "kindBits KUint8 = 8"
| "kindBits KInt16 = 16"
| "kindBits KUint16 = 16"
| "kindBits KInt32 = 32"
| "kindBits KUint32 = 32"
| "kindBits k = 64"

text \<open>
  \<open>SetInt\<close> and \<open>SetUint\<close> store the value converted to the width of the slot; they
  panic on a slot of another kind, as \<open>SetString\<close> does (\<open>None\<close>).
\<close>

definition SetInt :: "kind \<Rightarrow> int \<Rightarrow> ival option" where
  "SetInt k x = (if intKind k then Some (IInt (signed_take_bit (kindBits k - 1) x)) else None)"

definition SetUint :: "kind \<Rightarrow> int \<Rightarrow> ival option" where
  "SetUint k x = (if uintKind k \<or> k = KUintptr then Some (IUint (take_bit (kindBits k) x)) else None)"

definition SetString :: "kind \<Rightarrow> string \<Rightarrow> ival option" where
  "SetString k x = (if k = KString then Some (IString x) else None)"

text \<open>The accessors \<open>String()\<close>, \<open>Int()\<close> and \<open>Uint()\<close> of a \<open>reflect.Value\<close>.\<close>

definition String_of :: "gvalue \<Rightarrow> string" where
  "String_of v = (case underlying v of GString s \<Rightarrow> s | _ \<Rightarrow> [])"

definition Int_of :: "gvalue \<Rightarrow> int" where
  "Int_of v = (case underlying v of GInt w \<Rightarrow> sint w | GInt8 w \<Rightarrow> sint w | GInt16 w \<Rightarrow> sint w
     | GInt32 w \<Rightarrow> sint w | GInt64 w \<Rightarrow> sint w | _ \<Rightarrow> 0)"

definition Uint_of :: "gvalue \<Rightarrow> int" where
  "Uint_of v = (case underlying v of GUint w \<Rightarrow> uint w | GUint8 w \<Rightarrow> uint w | GUint16 w \<Rightarrow> uint w
     | GUint32 w \<Rightarrow> uint w | GUint64 w \<Rightarrow> uint w | _ \<Rightarrow> 0)"

text \<open>
  A field of a struct slot: a struct whose fields are all zero is \<open>IZero\<close>, and
  \<open>FieldByName\<close> panics on a slot that is no struct (\<open>None\<close>).
\<close>

definition getField :: "ival \<Rightarrow> string \<Rightarrow> ival option" where
  "getField s n =
     (case s of IZero \<Rightarrow> Some IZero
      | IStruct fs \<Rightarrow> Some (case map_of fs n of None \<Rightarrow> IZero | Some v \<Rightarrow> v)
      | _ \<Rightarrow> None)"

definition setField :: "ival \<Rightarrow> string \<Rightarrow> ival \<Rightarrow> ival" where
  "setField s n v =
     (case s of IStruct fs \<Rightarrow> IStruct ((n, v) # filter (\<lambda>p. fst p \<noteq> n) fs)
      | _ \<Rightarrow> IStruct [(n, v)])"

text \<open>
  \<open>matchInputValue\<close> returns an error, or nil after assigning to the slot \<open>goField\<close>:
  \<open>MatchErr\<close> with the message, \<open>MatchOk\<close> with the new content of the slot, or it
  panics. After an error the method is never called, so the content of the slot is of
  no interest then.
\<close>

datatype match_result = MatchPanic | MatchErr string | MatchOk ival

text \<open>The branch \<open>queryValue.isEnum\<close>.\<close>

definition matchInputValue_enum ::
  "(string \<times> enum) list \<Rightarrow> kind \<Rightarrow> bool \<Rightarrow> string \<Rightarrow> string \<Rightarrow> match_result" where
  "matchInputValue_enum ens goFieldKind isEn eKey eValue =
     (if \<not> isEn then MatchErr (mismatchError goFieldKind)
      else
        (case map_of (case map_of ens eKey of None \<Rightarrow> [] | Some en \<Rightarrow> keyValue en) eValue of
           None \<Rightarrow> MatchErr (''unknown enum value '' @ eValue @ '' for enum '' @ eKey)
         | Some v \<Rightarrow>
             (if Kind v = KString then
                (case SetString goFieldKind (String_of v) of None \<Rightarrow> MatchPanic | Some x \<Rightarrow> MatchOk x)
              else if intKind (Kind v) then
                (case SetInt goFieldKind (Int_of v) of None \<Rightarrow> MatchPanic | Some x \<Rightarrow> MatchOk x)
              else if uintKind (Kind v) then
                (case SetUint goFieldKind (Uint_of v) of None \<Rightarrow> MatchPanic | Some x \<Rightarrow> MatchOk x)
              else MatchErr ''internal error, type missmatch on enum'')))"

text \<open>The branches of \<open>switch queryValue.valType\<close> that assign a scalar.\<close>

definition matchInputValue_scalar ::
  "kind \<Rightarrow> kind \<Rightarrow> int \<Rightarrow> 64 word \<Rightarrow> string \<Rightarrow> bool \<Rightarrow> match_result" where
  "matchInputValue_scalar vType goFieldKind iV fV sV bV =
     (if vType = KInt then
        (if intKind goFieldKind then MatchOk (IInt (signed_take_bit (kindBits goFieldKind - 1) iV))
         else if uintKind goFieldKind then MatchOk (IUint (take_bit (kindBits goFieldKind) iV))
         else if floatKind goFieldKind then MatchOk (IFloatOfInt goFieldKind iV)
         else MatchErr (mismatchError goFieldKind))
      else if vType = KFloat64 then
        (if floatKind goFieldKind then MatchOk (IFloat goFieldKind fV)
         else MatchErr (mismatchError goFieldKind))
      else if vType = KString then
        (if goFieldKind = KString then MatchOk (IString sV)
         else MatchErr (mismatchError goFieldKind))
      else if vType = KBool then
        (if goFieldKind = KBool then MatchOk (IBool bV)
         else MatchErr (mismatchError goFieldKind))
      else MatchErr ''undefined function input type'')"

text \<open>
  \<open>matchInputValue\<close> with its two loops: over the items of a list literal (\<open>i\<close> is
  the index, \<open>arr\<close> the elements assigned so far) and over the entries of an object
  literal. The \<open>Input\<close> arrives as a pointer, and reading through nil panics.
\<close>

function matchInputValue ::
    "(string \<times> Input) list \<Rightarrow> (string \<times> enum) list \<Rightarrow> Value \<Rightarrow> ival \<Rightarrow> Input option \<Rightarrow> match_result"
  and matchInputValue_list ::
    "(string \<times> Input) list \<Rightarrow> (string \<times> enum) list \<Rightarrow> Value list \<Rightarrow> nat \<Rightarrow> Input option
      \<Rightarrow> ival list \<Rightarrow> match_result"
  and matchInputValue_object ::
    "(string \<times> Input) list \<Rightarrow> (string \<times> enum) list \<Rightarrow> (string \<times> Value) list \<Rightarrow> Input option
      \<Rightarrow> ival \<Rightarrow> match_result"
where
  "matchInputValue its ens queryValue goField goAnylizedData =
     (case goAnylizedData of
        None \<Rightarrow> MatchPanic
      | Some d \<Rightarrow>
     (if kind d = KPtr then
        (if isNull queryValue then MatchOk goField
         else
           (case matchInputValue its ens queryValue IZero (elem d) of
              MatchOk newValInner \<Rightarrow> MatchOk (IPtr newValInner)
            | r \<Rightarrow> r))
      else if isVar queryValue then MatchErr ''variable function arguments are currently unsupported''
      else if isNull queryValue then MatchOk goField
      else if Value.isEnum queryValue then
        matchInputValue_enum ens (kind d) (Input.isEnum d) (Input.enumKey d) (enumValue queryValue)
      else if valType queryValue = KArray then
        (if kind d = KArray then MatchErr ''fixed length arrays not supported''
         else if kind d = KSlice then matchInputValue_list its ens (listValue queryValue) 0 (elem d) []
         else MatchErr (mismatchError (kind d)))
      else if valType queryValue = KMap then
        (if kind d = KStruct then
           matchInputValue_object its ens (objectValue queryValue)
             (if isStructPointers d then map_of its (structName d) else Some d) goField
         else MatchErr (mismatchError (kind d)))
      else matchInputValue_scalar (valType queryValue) (kind d) (intValue queryValue)
             (floatValue queryValue) (stringValue queryValue) (booleanValue queryValue)))"
| "matchInputValue_list its ens [] i el arr = MatchOk (ISlice arr)"
| "matchInputValue_list its ens (item # items) i el arr =
     (case matchInputValue its ens item IZero el of
        MatchPanic \<Rightarrow> MatchPanic
      | MatchErr err \<Rightarrow> MatchErr (err @ '', Array index: ['' @ formatInt (int i) @ '']'')
      | MatchOk arrayItem \<Rightarrow> matchInputValue_list its ens items (i + 1) el (arr @ [arrayItem]))"
| "matchInputValue_object its ens [] goAnylizedData goField = MatchOk goField"
| "matchInputValue_object its ens ((queryKey, arg) # rest) goAnylizedData goField =
     (case goAnylizedData of
        None \<Rightarrow> MatchPanic
      | Some d \<Rightarrow>
          (case map_of (structContent d) queryKey of
             None \<Rightarrow> MatchErr (''undefined property '' @ queryKey)
           | Some structItemMeta \<Rightarrow>
               (case getField goField (goFieldName structItemMeta) of
                  None \<Rightarrow> MatchPanic
                | Some field \<Rightarrow>
                    (case matchInputValue its ens arg field (Some structItemMeta) of
                       MatchPanic \<Rightarrow> MatchPanic
                     | MatchErr err \<Rightarrow> MatchErr (err @ '', property: '' @ queryKey)
                     | MatchOk v \<Rightarrow>
                         matchInputValue_object its ens rest goAnylizedData
                           (setField goField (goFieldName structItemMeta) v)))))"
  by pat_completeness auto
termination
proof (relation "inv_image (less_than <*lex*> less_than)
    (\<lambda>x. case x of
       Inl (its, ens, qv, gf, gad) \<Rightarrow> (size qv, (case gad of None \<Rightarrow> 0 | Some d \<Rightarrow> Suc (size d)))
     | Inr (Inl (its, ens, items, i, el, arr)) \<Rightarrow> (size_list size items, 0)
     | Inr (Inr (its, ens, entries, gad, gf)) \<Rightarrow> (size_list (size_prod (\<lambda>x. 0) size) entries, 0))",
    goal_cases)
  case 1
  show ?case by (intro wf_inv_image wf_lex_prod wf_less_than)
next
  case (2 its ens queryValue goField goAnylizedData d)
  have "elem d = Some x \<Longrightarrow> size x < size d" for x
    by (cases d) simp
  with 2 show ?case by (cases "elem d") auto
next
  case (3 its ens queryValue goField goAnylizedData d)
  have "size_list size (listValue queryValue) < size queryValue"
    by (cases queryValue) simp
  with 3 show ?case by simp
next
  case (4 its ens queryValue goField goAnylizedData d)
  have "size_list (size_prod (\<lambda>x. 0) size) (objectValue queryValue) < size queryValue"
    by (cases queryValue) simp
  with 4 show ?case by simp
next
  case 5
  then show ?case by simp
next
  case 6
  then show ?case by simp
next
  case 7
  then show ?case by simp
next
  case 8
  then show ?case by simp
qed

declare matchInputValue.simps [simp del]

section \<open>The executor\<close>

text \<open>
  A call of the executor panics or returns its results with the context as it has left
  it. The recursion of the executor is not bounded by the query (a fragment may spread
  itself), so its functions take a bound \<open>n\<close> on the depth of the calls, and a call that
  needs more is \<open>None\<close>.
\<close>

datatype 'a outcome = Panic | Return 'a Ctx

text \<open>The closure \<open>res\<close> of \<open>resolveField\<close>: the key is the alias (\<open>fieldAlias\<close>, since
  \<open>alias\<close> is a keyword of Isabelle) if there is one.\<close>

definition resolveField_res :: "Field \<Rightarrow> string \<Rightarrow> string" where
  "resolveField_res query data =
     dquote # (if length (fieldAlias query) > 0 then fieldAlias query else name query) @ [dquote, CHR '':''] @ data"

text \<open>The value \<open>resolveField\<close> reads for the field (\<open>None\<close>: a panic).\<close>

definition resolveField_value :: "gvalue \<Rightarrow> Obj \<Rightarrow> gvalue option" where
  "resolveField_value struct structItem =
     (case customObjValue structItem of
        Some v \<Rightarrow> Some v
      | None \<Rightarrow>
          if valueType structItem = valueTypeMethod then
            (case methodPtr structItem of
               None \<Rightarrow> None
             | Some m \<Rightarrow>
                 if isTypeMethod m then Some (MethodByName struct (structFieldName structItem))
                 else FieldByName struct (structFieldName structItem))
          else FieldByName struct (structFieldName structItem))"

text \<open>
  The loop of \<open>resolveSelectionContent\<close> over the selection set, with \<open>res\<close> and
  \<open>writtenToRes\<close>; \<open>rf\<close> and \<open>rc\<close> are the calls of \<open>resolveField\<close> and of
  \<open>resolveSelectionContent\<close> on the current struct.
\<close>

fun resolveSelectionContent_loop ::
  "(Ctx \<Rightarrow> Field \<Rightarrow> (string \<times> bool) outcome option) \<Rightarrow>
   (Ctx \<Rightarrow> SelectionSet \<Rightarrow> string outcome option) \<Rightarrow>
   SelectionSet \<Rightarrow> string \<Rightarrow> bool \<Rightarrow> Ctx \<Rightarrow> string outcome option" where
  "resolveSelectionContent_loop rf rc [] res writtenToRes ctx = Some (Return res ctx)"
| "resolveSelectionContent_loop rf rc (Field f # rest) res writtenToRes ctx =
     (case rf ctx f of
        None \<Rightarrow> None
      | Some Panic \<Rightarrow> Some Panic
      | Some (Return (val, hasError) ctx') \<Rightarrow>
          if \<not> hasError then
            resolveSelectionContent_loop rf rc rest
              ((if writtenToRes then res @ '','' else res) @ val) True ctx'
          else resolveSelectionContent_loop rf rc rest res writtenToRes ctx')"
| "resolveSelectionContent_loop rf rc (FragmentSpread nm # rest) res writtenToRes ctx =
     (case map_of (fragments ctx) nm of
        None \<Rightarrow>
          resolveSelectionContent_loop rf rc rest res writtenToRes
            (addErr ctx (''unknown fragment '' @ nm))
      | Some operator \<Rightarrow>
          (case fragment operator of
             None \<Rightarrow> Some Panic
           | Some sel \<Rightarrow>
               (case rc ctx sel of
                  None \<Rightarrow> None
                | Some Panic \<Rightarrow> Some Panic
                | Some (Return val ctx') \<Rightarrow>
                    if length val > 0 then
                      resolveSelectionContent_loop rf rc rest
                        ((if writtenToRes then res @ '','' else res) @ val) True ctx'
                    else resolveSelectionContent_loop rf rc rest res writtenToRes ctx')))"
| "resolveSelectionContent_loop rf rc (InlineFragment sel # rest) res writtenToRes ctx =
     (case rc ctx sel of
        None \<Rightarrow> None
      | Some Panic \<Rightarrow> Some Panic
      | Some (Return val ctx') \<Rightarrow>
          if length val > 0 then
            resolveSelectionContent_loop rf rc rest
              ((if writtenToRes then res @ '','' else res) @ val) True ctx'
          else resolveSelectionContent_loop rf rc rest res writtenToRes ctx')"

text \<open>
  The loop of \<open>resolveFieldDataValue\<close> over \<open>query.arguments\<close>: it ends with the
  inputs filled in, or returns \<open>"null", true\<close> after an error of coercion, or panics.
\<close>

datatype args_result = ArgsPanic | ArgsError Ctx | ArgsDone "ival list" Ctx

fun resolveFieldDataValue_arguments ::
  "env \<Rightarrow> Ctx \<Rightarrow> string \<Rightarrow> objMethod \<Rightarrow> (string \<times> Value) list \<Rightarrow> ival list \<Rightarrow> args_result" where
  "resolveFieldDataValue_arguments e ctx qname m [] inputs = ArgsDone inputs ctx"
| "resolveFieldDataValue_arguments e ctx qname m ((queryKey, queryValue) # rest) inputs =
     (case map_of (inFields m) queryKey of
        None \<Rightarrow>
          resolveFieldDataValue_arguments e
            (addErr ctx (''undefined function '' @ qname @ '' input: '' @ queryKey)) qname m rest inputs
      | Some inField \<Rightarrow>
          if inputIdx inField \<ge> length inputs then ArgsPanic
          else
            (case getField (inputs ! inputIdx inField) (goFieldName (input inField)) of
               None \<Rightarrow> ArgsPanic
             | Some goField \<Rightarrow>
                 (case matchInputValue (inTypes (schema ctx)) (definedEnums e) queryValue goField
                         (Some (input inField)) of
                    MatchPanic \<Rightarrow> ArgsPanic
                  | MatchErr err \<Rightarrow>
                      ArgsError (addErr ctx (err @ '', function: '' @ qname @ '', property: '' @ queryKey))
                  | MatchOk v \<Rightarrow>
                      resolveFieldDataValue_arguments e ctx qname m rest
                        (inputs[inputIdx inField :=
                           setField (inputs ! inputIdx inField) (goFieldName (input inField)) v]))))"

text \<open>
  What \<open>resolveFieldDataValue\<close> finds in the error output of a call: no error output
  or a nil one, an error with its message, a value that is no \<open>error\<close>, or a panic.
\<close>

datatype error_out = ErrOutPanic | ErrOutInvalid | ErrOutNil | ErrOut string

definition resolveFieldDataValue_errOut :: "objMethod \<Rightarrow> gvalue list \<Rightarrow> error_out" where
  "resolveFieldDataValue_errOut m outs =
     (case errorOutNr m of
        None \<Rightarrow> ErrOutNil
      | Some nr \<Rightarrow>
          if nr \<ge> length outs then ErrOutPanic
          else
            (case IsNil (outs ! nr) of
               None \<Rightarrow> ErrOutPanic
             | Some True \<Rightarrow> ErrOutNil
             | Some False \<Rightarrow>
                 (case Interface_of (outs ! nr) of
                    None \<Rightarrow> ErrOutPanic
                  | Some d \<Rightarrow> (case asError d of None \<Rightarrow> ErrOutInvalid | Some msg \<Rightarrow> ErrOut msg))))"

text \<open>
  The call of the method and what follows it in \<open>resolveFieldDataValue\<close>: the call
  is recorded, the error output is looked at, and \<open>rv\<close>, the call of
  \<open>resolveFieldDataValue\<close> on the type of the value output, serialises that output.
\<close>

definition resolveFieldDataValue_call ::
  "(Ctx \<Rightarrow> gvalue \<Rightarrow> (string \<times> bool) outcome option) \<Rightarrow> Ctx \<Rightarrow> string \<Rightarrow> gvalue \<Rightarrow> objMethod
     \<Rightarrow> ival list \<Rightarrow> (string \<times> bool) outcome option" where
  "resolveFieldDataValue_call rv ctx qname val m inputs =
     (case Call val inputs of
        None \<Rightarrow> Some Panic
      | Some outs \<Rightarrow>
          (let ctx = ctx\<lparr>calls := calls ctx @ [(qname, inputs)]\<rparr>
           in case resolveFieldDataValue_errOut m outs of
                ErrOutPanic \<Rightarrow> Some Panic
              | ErrOutInvalid \<Rightarrow>
                  Some (Return (''null'', True)
                    (addErr ctx (''field '' @ qname @ '' returned a invalid kind of error'')))
              | ErrOutNil \<Rightarrow>
                  if outNr m \<ge> length outs then Some Panic else rv ctx (outs ! outNr m)
              | ErrOut msg \<Rightarrow>
                  if outNr m \<ge> length outs then Some Panic
                  else rv (addErr ctx msg) (outs ! outNr m)))"

text \<open>The loop over the elements of an array, with the \<open>list\<close> of their results.\<close>

fun resolveFieldDataValue_elements ::
  "(Ctx \<Rightarrow> gvalue \<Rightarrow> (string \<times> bool) outcome option) \<Rightarrow> gvalue list \<Rightarrow> string list \<Rightarrow> Ctx
     \<Rightarrow> string list outcome option" where
  "resolveFieldDataValue_elements rv [] list ctx = Some (Return list ctx)"
| "resolveFieldDataValue_elements rv (x # xs) list ctx =
     (case rv ctx x of
        None \<Rightarrow> None
      | Some Panic \<Rightarrow> Some Panic
      | Some (Return (res, hasError) ctx') \<Rightarrow>
          resolveFieldDataValue_elements rv xs (list @ [res]) ctx')"

definition elements :: "gvalue \<Rightarrow> gvalue list" where
  "elements v = (case underlying v of GSlice (Some xs) \<Rightarrow> xs | GArray xs \<Rightarrow> xs | _ \<Rightarrow> [])"

definition Elem :: "gvalue \<Rightarrow> gvalue" where
  "Elem v = (case underlying v of GPtrTo x \<Rightarrow> x | GInterface (Some x) \<Rightarrow> x | _ \<Rightarrow> GInvalid)"

function resolveSelection ::
    "nat \<Rightarrow> env \<Rightarrow> Ctx \<Rightarrow> SelectionSet \<Rightarrow> gvalue \<Rightarrow> Obj \<Rightarrow> 8 word \<Rightarrow> string outcome option"
  and resolveSelectionContent ::
    "nat \<Rightarrow> env \<Rightarrow> Ctx \<Rightarrow> SelectionSet \<Rightarrow> gvalue \<Rightarrow> Obj \<Rightarrow> 8 word \<Rightarrow> string outcome option"
  and resolveField ::
    "nat \<Rightarrow> env \<Rightarrow> Ctx \<Rightarrow> Field \<Rightarrow> gvalue \<Rightarrow> Obj \<Rightarrow> 8 word \<Rightarrow> (string \<times> bool) outcome option"
  and resolveFieldDataValue ::
    "nat \<Rightarrow> env \<Rightarrow> Ctx \<Rightarrow> Field \<Rightarrow> gvalue \<Rightarrow> Obj \<Rightarrow> 8 word \<Rightarrow> (string \<times> bool) outcome option"
where
  "resolveSelection 0 e ctx selectionSet struct structType dept = None"
| "resolveSelection (Suc n) e ctx selectionSet struct structType dept =
     (if dept \<ge> MaxDepth (schema ctx) then Some (Return ''null'' (addErr ctx ''reached max dept''))
      else
        (case resolveSelectionContent n e ctx selectionSet struct structType (dept + 1) of
           None \<Rightarrow> None
         | Some Panic \<Rightarrow> Some Panic
         | Some (Return content ctx') \<Rightarrow> Some (Return (''{'' @ content @ ''}'') ctx')))"
| "resolveSelectionContent 0 e ctx selectionSet struct structType dept = None"
| "resolveSelectionContent (Suc n) e ctx selectionSet struct structType dept =
     resolveSelectionContent_loop
       (\<lambda>c query. resolveField n e c query struct structType dept)
       (\<lambda>c sel. resolveSelectionContent n e c sel struct structType dept)
       selectionSet [] False ctx"
| "resolveField 0 e ctx query struct codeStructure dept = None"
| "resolveField (Suc n) e ctx query struct codeStructure dept =
     (case map_of (objContents codeStructure) (name query) of
        None \<Rightarrow>
          Some (Return (resolveField_res query ''null'', True)
            (addErr ctx (''field '' @ name query @ '' does not exists on '' @ typeName codeStructure)))
      | Some structItem \<Rightarrow>
          (case resolveField_value struct structItem of
             None \<Rightarrow> Some Panic
           | Some val \<Rightarrow>
               (case resolveFieldDataValue n e ctx query val structItem dept of
                  None \<Rightarrow> None
                | Some Panic \<Rightarrow> Some Panic
                | Some (Return (fieldValue, returnedOnError) ctx') \<Rightarrow>
                    Some (Return (resolveField_res query fieldValue, returnedOnError) ctx'))))"
| "resolveFieldDataValue 0 e ctx query val codeStructure dept = None"
| "resolveFieldDataValue (Suc n) e ctx query val codeStructure dept =
     (case valueType codeStructure of
        valueTypeMethod \<Rightarrow>
          (case IsNil val of
             None \<Rightarrow> Some Panic
           | Some True \<Rightarrow> Some (Return (''null'', False) ctx)
           | Some False \<Rightarrow>
               (case methodPtr codeStructure of
                  None \<Rightarrow> Some Panic
                | Some m \<Rightarrow>
                    (case resolveFieldDataValue_arguments e ctx (name query) m (arguments query)
                            (map (\<lambda>isCtx. if isCtx then ICtx else IZero) (ins m)) of
                       ArgsPanic \<Rightarrow> Some Panic
                     | ArgsError ctx' \<Rightarrow> Some (Return (''null'', True) ctx')
                     | ArgsDone inputs ctx' \<Rightarrow>
                         resolveFieldDataValue_call
                           (\<lambda>c out. resolveFieldDataValue n e c query out (outType m) dept)
                           ctx' (name query) val m inputs)))
      | valueTypeArray \<Rightarrow>
          if Kind val \<noteq> KArray \<and> Kind val \<noteq> KSlice then Some (Return (''null'', False) ctx)
          else
            (case IsNil val of
               None \<Rightarrow> Some Panic
             | Some True \<Rightarrow> Some (Return (''null'', False) ctx)
             | Some False \<Rightarrow>
                 (case innerContent codeStructure of
                    None \<Rightarrow>
                      Some (Return (''null'', True)
                        (addErr ctx (''field '' @ name query @ '' does not have an internal type of an array'')))
                  | Some inner \<Rightarrow>
                      (case resolveFieldDataValue_elements
                              (\<lambda>c x. resolveFieldDataValue n e c query x inner dept)
                              (elements val) [] ctx of
                         None \<Rightarrow> None
                       | Some Panic \<Rightarrow> Some Panic
                       | Some (Return list ctx') \<Rightarrow>
                           Some (Return (''['' @ Join list '','' @ '']'', False) ctx'))))
      | valueTypeObj \<Rightarrow>
          if length (Field.selection query) = 0 then
            Some (Return (''null'', True) (addErr ctx (''field '' @ name query @ '' must have a selection'')))
          else
            (case resolveSelection n e ctx (Field.selection query) val codeStructure dept of
               None \<Rightarrow> None
             | Some Panic \<Rightarrow> Some Panic
             | Some (Return v ctx') \<Rightarrow> Some (Return (v, False) ctx'))
      | valueTypeObjRef \<Rightarrow>
          if length (Field.selection query) = 0 then
            Some (Return (''null'', True) (addErr ctx (''field '' @ name query @ '' must have a selection'')))
          else
            (case map_of (types (schema ctx)) (typeName codeStructure) of
               None \<Rightarrow>
                 Some (Return (''null'', True)
                   (addErr ctx (''field '' @ name query @ '' cannot have a selection'')))
             | Some referred \<Rightarrow>
                 (case resolveSelection n e ctx (Field.selection query) val referred dept of
                    None \<Rightarrow> None
                  | Some Panic \<Rightarrow> Some Panic
                  | Some (Return v ctx') \<Rightarrow> Some (Return (v, False) ctx')))
      | valueTypeData \<Rightarrow>
          if length (Field.selection query) > 0 then
            Some (Return (''null'', True) (addErr ctx (''field '' @ name query @ '' cannot have a selection'')))
          else
            (case Interface_of val of
               None \<Rightarrow> Some Panic
             | Some i \<Rightarrow> Some (Return (fst (valueToJson e i), False) ctx))
      | valueTypePtr \<Rightarrow>
          if Kind val \<noteq> KPtr \<or> IsNil val = Some True then Some (Return (''null'', False) ctx)
          else
            (case innerContent codeStructure of
               None \<Rightarrow> Some Panic
             | Some inner \<Rightarrow> resolveFieldDataValue n e ctx query (Elem val) inner dept)
      | valueTypeEnum \<Rightarrow>
          (case map_of (definedEnums e) (Obj.enumKey codeStructure) of
             None \<Rightarrow> Some Panic
           | Some en \<Rightarrow>
               (case MapIndex (valueKey en) val of
                  None \<Rightarrow> Some (Return (''null'', False) ctx)
                | Some key \<Rightarrow> Some (Return (dquote # key @ [dquote], False) ctx)))
      | valueTypeUndefined \<Rightarrow>
          Some (Return (''null'', True) (addErr ctx (''field '' @ name query @ '' has invalid data type''))))"
  by pat_completeness auto
termination
  by (relation "measure (\<lambda>x. case x of
        Inl (Inl (n, r)) \<Rightarrow> n | Inl (Inr (n, r)) \<Rightarrow> n
      | Inr (Inl (n, r)) \<Rightarrow> n | Inr (Inr (n, r)) \<Rightarrow> n)") auto

text \<open>
  \<open>start\<close> and \<open>Resolve\<close>. The parser \<open>ParseQueryAndCheckNames\<close> is in a file that is
  not part of the sources: it is the parameter \<open>parse\<close>, which returns the fragments, the
  operators and the errors. The lock of the schema is not modelled.
\<close>

definition start :: "nat \<Rightarrow> env \<Rightarrow> Ctx \<Rightarrow> Operator \<Rightarrow> string outcome option" where
  "start n e ctx operator =
     (let ctx = (if length (directives operator) > 0
                 then ctx\<lparr>directvies := directvies ctx @ [directives operator]\<rparr> else ctx)
      in if operationType operator = ''query'' then
           resolveSelection n e ctx (Operator.selection operator) (rootQueryValue (schema ctx))
             (rootQuery (schema ctx)) 0
         else if operationType operator = ''mutation'' then
           resolveSelection n e ctx (Operator.selection operator) (rootQueryValue (schema ctx))
             (rootMethod (schema ctx)) 0
         else if operationType operator = ''subscription'' then
           Some (Return ''{}'' (addErr ctx ''subscription not suppored yet''))
         else
           Some (Return ''{}'' (addErr ctx (operationType operator @ '' cannot be used as operator''))))"

type_synonym parser =
  "string \<Rightarrow> (string \<times> Operator) list \<times> (string \<times> Operator) list \<times> string list"

text \<open>\<open>Resolve\<close> returns the data and the errors, unless it panics or runs out of depth.\<close>

datatype resolved = ResolvePanic | Resolved string "string list"

definition Resolve_start :: "nat \<Rightarrow> env \<Rightarrow> Ctx \<Rightarrow> Operator \<Rightarrow> resolved option" where
  "Resolve_start n e ctx operator =
     (case start n e ctx operator of
        None \<Rightarrow> None
      | Some Panic \<Rightarrow> Some ResolvePanic
      | Some (Return res ctx') \<Rightarrow> Some (Resolved res (errors ctx')))"

definition Resolve :: "parser \<Rightarrow> nat \<Rightarrow> env \<Rightarrow> Schema \<Rightarrow> string \<Rightarrow> string \<Rightarrow> resolved option" where
  "Resolve parse n e s query operatorTarget =
     (case parse query of (frags, operatorsMap, errs) \<Rightarrow>
        if length errs > 0 then Some (Resolved ''{}'' errs)
        else
          (let ctx = \<lparr>fragments = frags, schema = s, directvies = [], errors = [], calls = []\<rparr>
           in case operatorsMap of
                [] \<Rightarrow> Some (Resolved ''{}'' [])
              | [(k, operator)] \<Rightarrow> Resolve_start n e ctx operator
              | _ \<Rightarrow>
                  if operatorTarget = [] then
                    Some (Resolved ''{}'' [''multiple operators without target''])
                  else
                    (case map_of operatorsMap operatorTarget of
                       Some operator \<Rightarrow> Resolve_start n e ctx operator
                     | None \<Rightarrow>
                         Some (Resolved ''{}''
                           [operatorTarget @ '' is not a valid operator, available operators: ''
                              @ Join (map fst operatorsMap) '', '']))))"

section \<open>JSON strings\<close>

text \<open>
  Modelled from the spec: section 4.4 of the specification asks for strings "with escape
  sequences matching JSON". This is the string token of JSON (RFC 8259), against which
  the output of \<open>valueToJson\<close> is compared: between two quotes, any character from
  \<open>0x20\<close> on except the quote and the backslash, or a backslash followed by one of
  \<open>" \ / b f n r t\<close> or by \<open>u\<close> and four hexadecimal digits.
\<close>

definition hexDigit :: "char \<Rightarrow> bool" where
  "hexDigit c = (c \<in> set ''0123456789abcdefABCDEF'')"

function jsonChars :: "string \<Rightarrow> bool" where
  "jsonChars [] = True"
| "jsonChars (c # cs) =
     (if c = backslash then
        (case cs of
           [] \<Rightarrow> False
         | d # ds \<Rightarrow>
             if d \<in> set [dquote, backslash, CHR ''/'', CHR ''b'', CHR ''f'', CHR ''n'', CHR ''r'', CHR ''t'']
             then jsonChars ds
             else d = CHR ''u'' \<and> 4 \<le> length ds \<and> list_all hexDigit (take 4 ds) \<and> jsonChars (drop 4 ds))
      else c \<noteq> dquote \<and> 0x20 \<le> (of_char c :: nat) \<and> jsonChars cs)"
  by pat_completeness auto
termination
  by (relation "measure length") auto

definition jsonString :: "string \<Rightarrow> bool" where
  "jsonString s =
     (case s of
        [] \<Rightarrow> False
      | q # r \<Rightarrow> q = dquote \<and> r \<noteq> [] \<and> last r = dquote \<and> jsonChars (butlast r))"

section \<open>Nesting of a query\<close>



definition initialCtx :: "(string \<times> Operator) list \<Rightarrow> Schema \<Rightarrow> Ctx" where
  "initialCtx frags s = \<lparr>fragments = frags, schema = s, directvies = [], errors = [], calls = []\<rparr>"

inductive nestedSelection :: "env \<Rightarrow> (string \<times> Operator) list \<Rightarrow> Schema \<Rightarrow> nat \<Rightarrow> SelectionSet \<Rightarrow> gvalue \<Rightarrow> Obj \<Rightarrow> bool"
  and nestedContent :: "env \<Rightarrow> (string \<times> Operator) list \<Rightarrow> Schema \<Rightarrow> nat \<Rightarrow> SelectionSet \<Rightarrow> gvalue \<Rightarrow> Obj \<Rightarrow> bool"
  and nestedField :: "env \<Rightarrow> (string \<times> Operator) list \<Rightarrow> Schema \<Rightarrow> nat \<Rightarrow> Field \<Rightarrow> gvalue \<Rightarrow> Obj \<Rightarrow> bool"
  for e :: env and frags :: "(string \<times> Operator) list" and s :: Schema
where
  nested_0: "nestedSelection e frags s 0 selectionSet struct structType"
| nested_Suc:
    "nestedContent e frags s k selectionSet struct structType \<Longrightarrow>
     nestedSelection e frags s (Suc k) selectionSet struct structType"
| nested_Field:
    "Field query \<in> set selectionSet \<Longrightarrow>
     map_of (objContents structType) (name query) = Some structItem \<Longrightarrow>
     resolveField_value struct structItem = Some val \<Longrightarrow>
     nestedField e frags s k query val structItem \<Longrightarrow>
     nestedContent e frags s k selectionSet struct structType"
| nested_InlineFragment:
    "InlineFragment sel \<in> set selectionSet \<Longrightarrow>
     nestedContent e frags s k sel struct structType \<Longrightarrow>
     nestedContent e frags s k selectionSet struct structType"
| nested_FragmentSpread:
    "FragmentSpread nm \<in> set selectionSet \<Longrightarrow>
     map_of frags nm = Some operator \<Longrightarrow>
     fragment operator = Some sel \<Longrightarrow>
     nestedContent e frags s k sel struct structType \<Longrightarrow>
     nestedContent e frags s k selectionSet struct structType"
| nested_Obj:
    "valueType codeStructure = valueTypeObj \<Longrightarrow>
     Field.selection query \<noteq> [] \<Longrightarrow>
     nestedSelection e frags s k (Field.selection query) val codeStructure \<Longrightarrow>
     nestedField e frags s k query val codeStructure"
| nested_ObjRef:
    "valueType codeStructure = valueTypeObjRef \<Longrightarrow>
     Field.selection query \<noteq> [] \<Longrightarrow>
     map_of (types s) (typeName codeStructure) = Some referred \<Longrightarrow>
     nestedSelection e frags s k (Field.selection query) val referred \<Longrightarrow>
     nestedField e frags s k query val codeStructure"
| nested_Ptr:
    "valueType codeStructure = valueTypePtr \<Longrightarrow>
     Kind val = KPtr \<Longrightarrow>
     IsNil val = Some False \<Longrightarrow>
     innerContent codeStructure = Some inner \<Longrightarrow>
     nestedField e frags s k query (Elem val) inner \<Longrightarrow>
     nestedField e frags s k query val codeStructure"
| nested_Array:
    "valueType codeStructure = valueTypeArray \<Longrightarrow>
     underlying val = GSlice (Some xs) \<Longrightarrow>
     innerContent codeStructure = Some inner \<Longrightarrow>
     x \<in> set xs \<Longrightarrow>
     nestedField e frags s k query x inner \<Longrightarrow>
     nestedField e frags s k query val codeStructure"
| nested_Method:
    "valueType codeStructure = valueTypeMethod \<Longrightarrow>
     IsNil val = Some False \<Longrightarrow>
     methodPtr codeStructure = Some m \<Longrightarrow>
     resolveFieldDataValue_arguments e (initialCtx frags s) (name query) m (arguments query)
       (map (\<lambda>isCtx. if isCtx then ICtx else IZero) (ins m)) = ArgsDone inputs ctx' \<Longrightarrow>
     Call val inputs = Some outs \<Longrightarrow>
     resolveFieldDataValue_errOut m outs = ErrOutNil \<or>
       (\<exists>msg. resolveFieldDataValue_errOut m outs = ErrOut msg) \<Longrightarrow>
     outNr m < length outs \<Longrightarrow>
     nestedField e frags s k query (outs ! outNr m) (outType m) \<Longrightarrow>
     nestedField e frags s k query val codeStructure"

section \<open>An example schema\<close>

text \<open>
  The schema of the to-do application of the repository, for the concrete instances
  below: a root with the list \<open>todos\<close>, the method \<open>createTodo(title: String!)\<close>,
  which returns a to-do and an error, the function-valued field \<open>hook\<close> and the
  fixed-length array \<open>flags\<close>.
\<close>

definition ex_env :: env where
  "ex_env = \<lparr>definedEnums = [], floatToJson = (\<lambda>bits v. ''0''), float64 = (\<lambda>v. 0),
     multibyte = (\<lambda>s. ([], 1))\<rparr>"

definition ex_data :: "string \<Rightarrow> Obj" where
  "ex_data f = MkObj [] valueTypeData [] None None [] f None"

definition ex_Todo :: Obj where
  "ex_Todo = MkObj ''Todo'' valueTypeObj
     [(''id'', ex_data ''Id''), (''title'', ex_data ''Title''), (''done'', ex_data ''Done'')]
     None None [] [] None"

definition ex_title :: Input where
  "ex_title = MkInput KString False [] None False [] [] ''Title''"

definition ex_createTodo_method :: objMethod where
  "ex_createTodo_method =
     MkObjMethod [False] [(''title'', \<lparr>inputIdx = 0, input = ex_title\<rparr>)] (Some 1) 0 ex_Todo True"

definition ex_hook_method :: objMethod where
  "ex_hook_method = MkObjMethod [] [] None 0 (ex_data []) False"

definition ex_Root :: Obj where
  "ex_Root = MkObj ''QueryRoot'' valueTypeObj
     [(''todos'', MkObj [] valueTypeArray [] (Some ex_Todo) None [] ''Todos'' None),
      (''createTodo'', MkObj [] valueTypeMethod [] None (Some ex_createTodo_method) [] ''CreateTodo'' None),
      (''hook'', MkObj [] valueTypeMethod [] None (Some ex_hook_method) [] ''Hook'' None),
      (''flags'', MkObj [] valueTypeArray [] (Some (ex_data [])) None [] ''Flags'' None)]
     None None [] [] None"

definition ex_todo :: gvalue where
  "ex_todo = GStruct [(''Id'', GString ''1''), (''Title'', GString ''a''), (''Done'', GBool False)] []"

definition ex_createTodo :: "ival list \<Rightarrow> gvalue list" where
  "ex_createTodo inputs = [ex_todo, GInterface (Some (GError ''boom''))]"

definition ex_rootValue :: "gvalue list \<Rightarrow> gvalue" where
  "ex_rootValue todos =
     GStruct [(''Todos'', GSlice (Some todos)), (''Hook'', GFunc None), (''Flags'', GArray [GBool True])]
       [(''CreateTodo'', GFunc (Some ex_createTodo))]"

definition ex_ctx :: "8 word \<Rightarrow> gvalue list \<Rightarrow> Ctx" where
  "ex_ctx d todos =
     \<lparr>fragments = [],
      schema = \<lparr>rootQuery = ex_Root, rootMethod = ex_Root, rootQueryValue = ex_rootValue todos,
        types = [], inTypes = [], MaxDepth = d\<rparr>,
      directvies = [], errors = [], calls = []\<rparr>"

definition ex_field :: "string \<Rightarrow> SelectionSet \<Rightarrow> (string \<times> Value) list \<Rightarrow> Field" where
  "ex_field n sel args = MkField n [] sel args"

definition ex_int :: "int \<Rightarrow> Value" where
  "ex_int i = MkValue False False False [] KInt i 0 [] False [] []"

definition ex_string :: "string \<Rightarrow> Value" where
  "ex_string s = MkValue False False False [] KString 0 0 s False [] []"

definition ex_operator :: "string \<Rightarrow> SelectionSet \<Rightarrow> Operator" where
  "ex_operator t sel = \<lparr>operationType = t, directives = [], selection = sel, fragment = None\<rparr>"

definition ex_parse :: parser where
  "ex_parse query =
     (if query = ''query A{} query B{}'' then
        ([], [(''A'', ex_operator ''query'' []), (''B'', ex_operator ''query'' [])], [])
      else if query = ''{todos{id}}'' then
        ([], [(''unknown_query_1'',
               ex_operator ''query'' [Field (ex_field ''todos'' [Field (ex_field ''id'' [] [])] [])])], [])
      else ([], [], []))"

definition ex_fuel :: nat where
  "ex_fuel = Suc (Suc (Suc (Suc (Suc (Suc (Suc (Suc (Suc (Suc (Suc (Suc 0)))))))))))"

section \<open>The response framer: properties\<close>

lemma GenerateResponse_no_errors:
  "GenerateResponse mb data [] = ''{\"data\":'' @ data @ ''}''"
  by (simp add: GenerateResponse_def)

lemma GenerateResponse_errors_append:
  "GenerateResponse_errors mb i errs res =
     res @ GenerateResponse_errors mb i errs []"
proof (induction errs arbitrary: i res)
  case Nil
  show ?case by simp
next
  case (Cons e es)
  define m where "m = ''{\"message\":'' @ Quote mb e @ ''}''"
  define sep where "sep = (if i > 0 then '','' else [])"
  have step: "GenerateResponse_errors mb i (e # es) r =
        GenerateResponse_errors mb (i + 1) es (r @ sep @ m)" for r
    by (simp add: m_def sep_def)
  have "GenerateResponse_errors mb i (e # es) res =
        (res @ sep @ m) @ GenerateResponse_errors mb (i + 1) es []"
    by (simp only: step) (rule Cons.IH)
  moreover have "GenerateResponse_errors mb i (e # es) [] =
        ([] @ sep @ m) @ GenerateResponse_errors mb (i + 1) es []"
    by (simp only: step) (rule Cons.IH)
  ultimately show ?case by simp
qed

lemma GenerateResponse_data_then_errors:
  "errs \<noteq> [] \<Longrightarrow>
   GenerateResponse mb data errs =
     ''{\"data\":'' @ data @ ''\"errors\":['' @ GenerateResponse_errors mb 0 errs [] @ '']}''"
  by (simp add: GenerateResponse_def GenerateResponse_errors_append [of mb 0 errs "_ # _"])

text \<open>
  C1. With an empty error list the response is \<open>{"data":<data>}\<close>
  (\<open>GenerateResponse_no_errors\<close>). With a non-empty list the claim asks for a comma
  between the \<open>data\<close> member and the \<open>errors\<close> member: the code writes none
  (\<open>GenerateResponse_data_then_errors\<close>), and for the data \<open>{}\<close> and the one error
  \<open>x\<close> the response is \<open>{"data":{}"errors":[{"message":"x"}]}\<close>, which is not a JSON
  object.
\<close>

theorem GenerateResponse_missing_comma:
  "GenerateResponse mb ''{}'' [''x''] = ''{\"data\":{}\"errors\":[{\"message\":\"x\"}]}''"
  by (simp add: GenerateResponse_def Quote_def appendEscapedRune_def dquote_def backslash_def)

section \<open>Evaluating the example\<close>

lemmas ex_defs = ex_env_def ex_data_def ex_Todo_def ex_title_def ex_createTodo_method_def
  ex_hook_method_def ex_Root_def ex_todo_def ex_createTodo_def ex_rootValue_def ex_ctx_def
  ex_field_def ex_int_def ex_string_def ex_operator_def ex_parse_def


lemmas ex_eval = ex_fuel_def ex_defs resolveField_value_def FieldByName_def MethodByName_def
  resolveField_res_def dquote_def backslash_def elements_def Join_def Interface_of_def Quote_def
  appendEscapedRune_def word_le_nat_alt addErr_def Call_def asError_def
  resolveFieldDataValue_call_def resolveFieldDataValue_errOut_def getField_def setField_def
  matchInputValue.simps matchInputValue_scalar_def mismatchError_def intKind_def uintKind_def
  floatKind_def

section \<open>Unknown fields\<close>

text \<open>
  C3 (amended). When the name of the queried field is not among the \<open>objContents\<close> of the
  current object, \<open>resolveField\<close> records \<open>field X does not exists on Y\<close> (the text of
  the source, with \<open>exists\<close>), returns the key with \<open>null\<close> and the errored flag set;
  the loop of \<open>resolveSelectionContent\<close> then goes on with \<open>res\<close> and \<open>writtenToRes\<close>
  unchanged, so the key is not part of the object body.
\<close>

theorem resolveField_unknown_field:
  assumes "map_of (objContents codeStructure) (name query) = None"
  shows "resolveField (Suc n) e ctx query struct codeStructure dept =
           Some (Return (resolveField_res query ''null'', True)
             (addErr ctx (''field '' @ name query @ '' does not exists on '' @ typeName codeStructure))) \<and>
         resolveSelectionContent_loop
             (\<lambda>c q. resolveField (Suc n) e c q struct codeStructure dept) rc
             (Field query # rest) res writtenToRes ctx =
           resolveSelectionContent_loop
             (\<lambda>c q. resolveField (Suc n) e c q struct codeStructure dept) rc
             rest res writtenToRes
             (addErr ctx (''field '' @ name query @ '' does not exists on '' @ typeName codeStructure))"
  using assms by simp

text \<open>
  The claim C3 as stated fails on the text of the message: for the field \<open>nope\<close> on the
  type \<open>Todo\<close> the recorded error is \<open>field nope does not exists on Todo\<close>.
\<close>

theorem resolveField_unknown_field_counterexample:
  "resolveField (Suc 0) ex_env (ex_ctx 255 []) (ex_field ''nope'' [] []) ex_todo ex_Todo 1 =
     Some (Return (''\"nope\":null'', True)
       ((ex_ctx 255 [])\<lparr>errors := [''field nope does not exists on Todo'']\<rparr>)) \<and>
   ''field nope does not exist on Todo'' \<notin> set [''field nope does not exists on Todo'']"
  by (simp add: ex_eval)

theorem resolveField_unknown_field_witness:
  "map_of (objContents ex_Todo) (name (ex_field ''nope'' [] [])) = None \<and>
   resolveField (Suc 0) ex_env (ex_ctx 255 []) (ex_field ''nope'' [] []) ex_todo ex_Todo 1 =
     Some (Return (''\"nope\":null'', True)
       ((ex_ctx 255 [])\<lparr>errors := [''field nope does not exists on Todo'']\<rparr>)) \<and>
   resolveSelection ex_fuel ex_env (ex_ctx 255 [])
       [Field (ex_field ''id'' [] []), Field (ex_field ''nope'' [] []), Field (ex_field ''done'' [] [])]
       ex_todo ex_Todo 0 =
     Some (Return ''{\"id\":\"1\",\"done\":false}''
       ((ex_ctx 255 [])\<lparr>errors := [''field nope does not exists on Todo'']\<rparr>))"
proof -
  have h: "map_of (objContents ex_Todo) (name (ex_field ''nope'' [] [])) = None"
    by (simp add: ex_defs)
  show ?thesis
    using h resolveField_unknown_field [OF h, of 0 ex_env "ex_ctx 255 []" ex_todo 1]
    by (simp add: ex_eval)
qed

section \<open>Nil methods\<close>

text \<open>
  C10. For a field backed by a method whose function value is nil,
  \<open>resolveFieldDataValue\<close> returns \<open>null\<close> with the errored flag unset and the context as
  it was (no error recorded); \<open>resolveField\<close> returns the key with \<open>null\<close>, and the
  loop of \<open>resolveSelectionContent\<close> writes it into the object body.
\<close>

theorem resolveFieldDataValue_nil_method:
  assumes "valueType structItem = valueTypeMethod" and "IsNil val = Some True"
    and "map_of (objContents codeStructure) (name query) = Some structItem"
    and "resolveField_value struct structItem = Some val"
  shows "resolveFieldDataValue (Suc n) e ctx query val structItem dept =
           Some (Return (''null'', False) ctx) \<and>
         resolveField (Suc (Suc n)) e ctx query struct codeStructure dept =
           Some (Return (resolveField_res query ''null'', False) ctx) \<and>
         resolveSelectionContent (Suc (Suc (Suc n))) e ctx (Field query # rest) struct codeStructure dept =
           resolveSelectionContent_loop
             (\<lambda>c q. resolveField (Suc (Suc n)) e c q struct codeStructure dept)
             (\<lambda>c sel. resolveSelectionContent (Suc (Suc n)) e c sel struct codeStructure dept)
             rest (resolveField_res query ''null'') True ctx"
  using assms by simp

theorem resolveFieldDataValue_nil_method_witness:
  "valueType (MkObj [] valueTypeMethod [] None (Some ex_hook_method) [] ''Hook'' None) = valueTypeMethod \<and>
   IsNil (GFunc None) = Some True \<and>
   map_of (objContents ex_Root) (name (ex_field ''hook'' [] [])) =
     Some (MkObj [] valueTypeMethod [] None (Some ex_hook_method) [] ''Hook'' None) \<and>
   resolveField_value (ex_rootValue []) (MkObj [] valueTypeMethod [] None (Some ex_hook_method) [] ''Hook'' None) =
     Some (GFunc None) \<and>
   resolveSelection ex_fuel ex_env (ex_ctx 255 []) [Field (ex_field ''hook'' [] [])] (ex_rootValue []) ex_Root 0 =
     Some (Return ''{\"hook\":null}'' (ex_ctx 255 []))"
proof -
  let ?item = "MkObj [] valueTypeMethod [] None (Some ex_hook_method) [] ''Hook'' None"
  have h1: "valueType ?item = valueTypeMethod" by simp
  have h2: "IsNil (GFunc None) = Some True" by simp
  have h3: "map_of (objContents ex_Root) (name (ex_field ''hook'' [] [])) = Some ?item"
    by (simp add: ex_defs)
  have h4: "resolveField_value (ex_rootValue []) ?item = Some (GFunc None)"
    by (simp add: ex_eval)
  show ?thesis
    using h1 h2 h3 h4
      resolveFieldDataValue_nil_method [OF h1 h2 h3 h4, of 0 ex_env "ex_ctx 255 []" 1 "[]"]
    by (simp add: ex_eval)
qed

section \<open>Errors returned by methods\<close>



section \<open>Arguments of methods\<close>

lemma resolveFieldDataValue_arguments_append:
  "resolveFieldDataValue_arguments e ctx qname m (pre @ rest) inputs =
     (case resolveFieldDataValue_arguments e ctx qname m pre inputs of
        ArgsDone inputs' ctx' \<Rightarrow> resolveFieldDataValue_arguments e ctx' qname m rest inputs'
      | r \<Rightarrow> r)"
proof (induction pre arbitrary: ctx inputs)
  case Nil
  show ?case by simp
next
  case (Cons a pre)
  obtain k v where a: "a = (k, v)" by (cases a)
  show ?case
    unfolding a
    by (simp add: Cons.IH split: option.splits match_result.splits)
qed

text \<open>The loop only appends to the errors of the context.\<close>

lemma resolveFieldDataValue_arguments_ctx:
  "resolveFieldDataValue_arguments e ctx qname m args inputs = ArgsDone inputs' ctx' \<or>
   resolveFieldDataValue_arguments e ctx qname m args inputs = ArgsError ctx' \<Longrightarrow>
   \<exists>es. ctx' = ctx\<lparr>errors := errors ctx @ es\<rparr>"
proof (induction args arbitrary: ctx inputs)
  case Nil
  then show ?case by (auto intro: exI [of _ "[]"])
next
  case (Cons a args)
  obtain k v where a: "a = (k, v)" by (cases a)
  show ?case
  proof (cases "map_of (inFields m) k")
    case None
    with Cons.prems a obtain es where
      "ctx' = (addErr ctx (''undefined function '' @ qname @ '' input: '' @ k))\<lparr>errors :=
         errors (addErr ctx (''undefined function '' @ qname @ '' input: '' @ k)) @ es\<rparr>"
      using Cons.IH by fastforce
    then show ?thesis by (auto simp: addErr_def)
  next
    case (Some inField)
    with Cons.prems a show ?thesis
      by (auto simp: addErr_def split: if_splits option.splits match_result.splits
               dest!: Cons.IH intro: exI [of _ "[_]"])
  qed
qed


lemma matchInputValue_string_int:
  assumes "kind inp = KString" and "\<not> isVar lit" and "\<not> isNull lit" and "\<not> Value.isEnum lit"
    and "valType lit = KInt"
  shows "matchInputValue its ens lit slot (Some inp) =
           MatchErr ''function arguments type missmatch expected a string''"
  using assms
  by (simp add: matchInputValue.simps matchInputValue_scalar_def mismatchError_def intKind_def
      uintKind_def floatKind_def)

text \<open>
  C6. When the arguments of the query reach, in the order of iteration, an argument \<open>P\<close>
  that the method declares and whose literal \<open>matchInputValue\<close> rejects with the error
  \<open>err\<close> (the arguments \<open>pre\<close> before it were unknown or were coerced), the field is
  \<open>null\<close> with the errored flag set, the error recorded is
  \<open>err, function: F, property: P\<close>, and the list of calls is the one at entry: the
  method is not invoked. An integer literal for a slot of kind string is rejected with
  \<open>function arguments type missmatch expected a string\<close>.
\<close>

theorem resolveFieldDataValue_coercion_error:
  assumes "valueType codeStructure = valueTypeMethod" and "IsNil val = Some False"
    and "methodPtr codeStructure = Some m"
    and "arguments query = pre @ (P, v) # post"
    and "resolveFieldDataValue_arguments e ctx (name query) m pre
           (map (\<lambda>isCtx. if isCtx then ICtx else IZero) (ins m)) = ArgsDone inputs ctx1"
    and "map_of (inFields m) P = Some inField"
    and "inputIdx inField < length inputs"
    and "getField (inputs ! inputIdx inField) (goFieldName (input inField)) = Some goField"
    and "matchInputValue (inTypes (schema ctx1)) (definedEnums e) v goField (Some (input inField))
           = MatchErr err"
  shows "resolveFieldDataValue (Suc n) e ctx query val codeStructure dept =
           Some (Return (''null'', True)
             (addErr ctx1 (err @ '', function: '' @ name query @ '', property: '' @ P))) \<and>
         calls (addErr ctx1 (err @ '', function: '' @ name query @ '', property: '' @ P)) = calls ctx \<and>
         (\<forall>its ens lit slot inp.
            kind inp = KString \<and> \<not> isVar lit \<and> \<not> isNull lit \<and> \<not> Value.isEnum lit \<and> valType lit = KInt
            \<longrightarrow> matchInputValue its ens lit slot (Some inp) =
                  MatchErr ''function arguments type missmatch expected a string'')"
proof -
  let ?inputs0 = "map (\<lambda>isCtx. if isCtx then ICtx else IZero) (ins m)"
  define msg where "msg = err @ '', function: '' @ name query @ '', property: '' @ P"
  have step: "resolveFieldDataValue_arguments e ctx1 (name query) m ((P, v) # post) inputs =
      ArgsError (addErr ctx1 msg)"
    using assms(6-9) by (simp add: msg_def)
  have loop: "resolveFieldDataValue_arguments e ctx (name query) m (arguments query) ?inputs0 =
      ArgsError (addErr ctx1 msg)"
    unfolding assms(4) resolveFieldDataValue_arguments_append [of e ctx "name query" m pre] assms(5)
    using step by simp
  have 1: "resolveFieldDataValue (Suc n) e ctx query val codeStructure dept =
      Some (Return (''null'', True) (addErr ctx1 msg))"
    using assms(1-3) loop by simp
  obtain es where "ctx1 = ctx\<lparr>errors := errors ctx @ es\<rparr>"
    using resolveFieldDataValue_arguments_ctx [of e ctx "name query" m pre ?inputs0 inputs ctx1] assms(5)
    by blast
  then have 2: "calls (addErr ctx1 msg) = calls ctx"
    by (simp add: addErr_def)
  show ?thesis
    using 1 2 matchInputValue_string_int unfolding msg_def by blast
qed



theorem resolveFieldDataValue_coercion_error_witness:
  "valueType (MkObj [] valueTypeMethod [] None (Some ex_createTodo_method) [] ''CreateTodo'' None)
     = valueTypeMethod \<and>
   IsNil (GFunc (Some ex_createTodo)) = Some False \<and>
   methodPtr (MkObj [] valueTypeMethod [] None (Some ex_createTodo_method) [] ''CreateTodo'' None)
     = Some ex_createTodo_method \<and>
   arguments (ex_field ''createTodo'' [Field (ex_field ''title'' [] [])] [(''title'', ex_int 1)])
     = [] @ (''title'', ex_int 1) # [] \<and>
   resolveFieldDataValue_arguments ex_env (ex_ctx 255 [])
       (name (ex_field ''createTodo'' [Field (ex_field ''title'' [] [])] [(''title'', ex_int 1)]))
       ex_createTodo_method []
       (map (\<lambda>isCtx. if isCtx then ICtx else IZero) (ins ex_createTodo_method))
     = ArgsDone [IZero] (ex_ctx 255 []) \<and>
   map_of (inFields ex_createTodo_method) ''title'' = Some \<lparr>inputIdx = 0, input = ex_title\<rparr> \<and>
   inputIdx \<lparr>inputIdx = 0, input = ex_title\<rparr> < length [IZero] \<and>
   getField ([IZero] ! inputIdx \<lparr>inputIdx = 0, input = ex_title\<rparr>)
       (goFieldName (input \<lparr>inputIdx = 0, input = ex_title\<rparr>)) = Some IZero \<and>
   matchInputValue (inTypes (schema (ex_ctx 255 []))) (definedEnums ex_env) (ex_int 1) IZero
       (Some (input \<lparr>inputIdx = 0, input = ex_title\<rparr>))
     = MatchErr ''function arguments type missmatch expected a string'' \<and>
   resolveFieldDataValue (Suc 0) ex_env (ex_ctx 255 [])
       (ex_field ''createTodo'' [Field (ex_field ''title'' [] [])] [(''title'', ex_int 1)])
       (GFunc (Some ex_createTodo))
       (MkObj [] valueTypeMethod [] None (Some ex_createTodo_method) [] ''CreateTodo'' None) 1
     = Some (Return (''null'', True)
         ((ex_ctx 255 [])\<lparr>errors :=
            [''function arguments type missmatch expected a string, function: createTodo, property: title'']\<rparr>)) \<and>
   resolveSelection ex_fuel ex_env (ex_ctx 255 [])
       [Field (ex_field ''createTodo'' [Field (ex_field ''title'' [] [])] [(''title'', ex_int 1)])]
       (ex_rootValue []) ex_Root 0
     = Some (Return ''{}''
         ((ex_ctx 255 [])\<lparr>errors :=
            [''function arguments type missmatch expected a string, function: createTodo, property: title'']\<rparr>))"
proof -
  let ?q = "ex_field ''createTodo'' [Field (ex_field ''title'' [] [])] [(''title'', ex_int 1)]"
  let ?cs = "MkObj [] valueTypeMethod [] None (Some ex_createTodo_method) [] ''CreateTodo'' None"
  let ?inField = "\<lparr>inputIdx = 0, input = ex_title\<rparr>"
  have h1: "valueType ?cs = valueTypeMethod" by simp
  have h2: "IsNil (GFunc (Some ex_createTodo)) = Some False" by simp
  have h3: "methodPtr ?cs = Some ex_createTodo_method" by simp
  have h4: "arguments ?q = [] @ (''title'', ex_int 1) # []" by (simp add: ex_defs)
  have h5: "resolveFieldDataValue_arguments ex_env (ex_ctx 255 []) (name ?q) ex_createTodo_method []
       (map (\<lambda>isCtx. if isCtx then ICtx else IZero) (ins ex_createTodo_method))
     = ArgsDone [IZero] (ex_ctx 255 [])"
    by (simp add: ex_defs)
  have h6: "map_of (inFields ex_createTodo_method) ''title'' = Some ?inField" by (simp add: ex_defs)
  have h7: "inputIdx ?inField < length [IZero]" by simp
  have h8: "getField ([IZero] ! inputIdx ?inField) (goFieldName (input ?inField)) = Some IZero"
    by (simp add: getField_def)
  have h9: "matchInputValue (inTypes (schema (ex_ctx 255 []))) (definedEnums ex_env) (ex_int 1) IZero
       (Some (input ?inField)) = MatchErr ''function arguments type missmatch expected a string''"
    by (simp add: ex_eval)
  show ?thesis
    using h1 h2 h3 h4 h5 h6 h7 h8 h9
      resolveFieldDataValue_coercion_error [OF h1 h2 h3 h4 h5 h6 h7 h8 h9, of 0 1]
    by (simp add: ex_eval)
qed


section \<open>The choice of the operator\<close>

lemma Resolve_many:
  "parse query = (frags, (k, operator) # y # zs, []) \<Longrightarrow>
   Resolve parse n e s query operatorTarget =
     (if operatorTarget = [] then Some (Resolved ''{}'' [''multiple operators without target''])
      else
        (case map_of ((k, operator) # y # zs) operatorTarget of
           Some operator \<Rightarrow>
             Resolve_start n e
               \<lparr>fragments = frags, schema = s, directvies = [], errors = [], calls = []\<rparr> operator
         | None \<Rightarrow>
             Some (Resolved ''{}''
               [operatorTarget @ '' is not a valid operator, available operators: ''
                  @ Join (map fst ((k, operator) # y # zs)) '', ''])))"
  by (simp add: Resolve_def)

text \<open>
  C4. When the parser reports no error, \<open>Resolve\<close> chooses the operator by the number of
  parsed operators: none gives \<open>{}\<close> and no error; exactly one is executed whatever the
  target; with more than one, an empty target gives \<open>{}\<close> and the single error
  \<open>multiple operators without target\<close>, and a non-empty target that names none of them
  gives \<open>{}\<close> and one error that lists the names of the operators.
\<close>

theorem Resolve_operator_choice:
  assumes "parse query = (frags, operatorsMap, [])"
  shows "(operatorsMap = [] \<longrightarrow>
            Resolve parse n e s query operatorTarget = Some (Resolved ''{}'' [])) \<and>
         (\<forall>k operator. operatorsMap = [(k, operator)] \<longrightarrow>
            Resolve parse n e s query operatorTarget =
              Resolve_start n e
                \<lparr>fragments = frags, schema = s, directvies = [], errors = [], calls = []\<rparr> operator) \<and>
         (1 < length operatorsMap \<and> operatorTarget = [] \<longrightarrow>
            Resolve parse n e s query operatorTarget =
              Some (Resolved ''{}'' [''multiple operators without target''])) \<and>
         (1 < length operatorsMap \<and> operatorTarget \<noteq> [] \<and> operatorTarget \<notin> fst ` set operatorsMap \<longrightarrow>
            Resolve parse n e s query operatorTarget =
              Some (Resolved ''{}''
                [operatorTarget @ '' is not a valid operator, available operators: ''
                   @ Join (map fst operatorsMap) '', '']))"
proof (cases operatorsMap)
  case Nil
  then show ?thesis
    using assms by (simp add: Resolve_def)
next
  case (Cons a rest)
  obtain k operator where a: "a = (k, operator)"
    by (cases a)
  show ?thesis
  proof (cases rest)
    case Nil
    then show ?thesis
      using assms Cons a by (simp add: Resolve_def)
  next
    case (Cons b rest')
    have many: "Resolve parse n e s query operatorTarget =
        (if operatorTarget = [] then Some (Resolved ''{}'' [''multiple operators without target''])
         else
           (case map_of operatorsMap operatorTarget of
              Some operator \<Rightarrow>
                Resolve_start n e
                  \<lparr>fragments = frags, schema = s, directvies = [], errors = [], calls = []\<rparr> operator
            | None \<Rightarrow>
                Some (Resolved ''{}''
                  [operatorTarget @ '' is not a valid operator, available operators: ''
                     @ Join (map fst operatorsMap) '', ''])))"
      using Resolve_many [of parse query frags k operator b rest' n e s operatorTarget] assms
      unfolding \<open>operatorsMap = a # rest\<close> a Cons by blast
    have none: "operatorTarget \<notin> fst ` set operatorsMap \<Longrightarrow> map_of operatorsMap operatorTarget = None"
      by (simp add: map_of_eq_None_iff)
    have long: "operatorsMap \<noteq> []" "\<And>k' operator'. operatorsMap \<noteq> [(k', operator')]"
      using \<open>operatorsMap = a # rest\<close> Cons by simp_all
    show ?thesis
    proof (intro conjI impI allI)
      assume "operatorsMap = []"
      with long show "Resolve parse n e s query operatorTarget = Some (Resolved ''{}'' [])"
        by blast
    next
      fix k' operator'
      assume "operatorsMap = [(k', operator')]"
      with long show "Resolve parse n e s query operatorTarget =
          Resolve_start n e
            \<lparr>fragments = frags, schema = s, directvies = [], errors = [], calls = []\<rparr> operator'"
        by blast
    next
      assume "1 < length operatorsMap \<and> operatorTarget = []"
      then show "Resolve parse n e s query operatorTarget =
          Some (Resolved ''{}'' [''multiple operators without target''])"
        unfolding many by simp
    next
      assume "1 < length operatorsMap \<and> operatorTarget \<noteq> [] \<and> operatorTarget \<notin> fst ` set operatorsMap"
      then show "Resolve parse n e s query operatorTarget =
          Some (Resolved ''{}''
            [operatorTarget @ '' is not a valid operator, available operators: ''
               @ Join (map fst operatorsMap) '', ''])"
        using none unfolding many by simp
    qed
  qed
qed

theorem Resolve_operator_choice_witness:
  "ex_parse ''#'' = ([], [], []) \<and>
   ex_parse ''{todos{id}}'' =
     ([], [(''unknown_query_1'',
            ex_operator ''query'' [Field (ex_field ''todos'' [Field (ex_field ''id'' [] [])] [])])], []) \<and>
   ex_parse ''query A{} query B{}'' =
     ([], [(''A'', ex_operator ''query'' []), (''B'', ex_operator ''query'' [])], []) \<and>
   Resolve ex_parse ex_fuel ex_env (schema (ex_ctx 255 [ex_todo])) ''#'' ''A'' =
     Some (Resolved ''{}'' []) \<and>
   Resolve ex_parse ex_fuel ex_env (schema (ex_ctx 255 [ex_todo])) ''{todos{id}}'' ''A'' =
     Some (Resolved ''{\"todos\":[{\"id\":\"1\"}]}'' []) \<and>
   Resolve ex_parse ex_fuel ex_env (schema (ex_ctx 255 [ex_todo])) ''query A{} query B{}'' [] =
     Some (Resolved ''{}'' [''multiple operators without target'']) \<and>
   Resolve ex_parse ex_fuel ex_env (schema (ex_ctx 255 [ex_todo])) ''query A{} query B{}'' ''C'' =
     Some (Resolved ''{}'' [''C is not a valid operator, available operators: A, B''])"
proof -
  let ?s = "schema (ex_ctx 255 [ex_todo])"
  have h0: "ex_parse ''#'' = ([], [], [])"
    by (simp add: ex_parse_def)
  have h1: "ex_parse ''{todos{id}}'' =
     ([], [(''unknown_query_1'',
            ex_operator ''query'' [Field (ex_field ''todos'' [Field (ex_field ''id'' [] [])] [])])], [])"
    by (simp add: ex_parse_def)
  have h2: "ex_parse ''query A{} query B{}'' =
     ([], [(''A'', ex_operator ''query'' []), (''B'', ex_operator ''query'' [])], [])"
    by (simp add: ex_parse_def)
  have start: "Resolve_start ex_fuel ex_env
      \<lparr>fragments = [], schema = ?s, directvies = [], errors = [], calls = []\<rparr>
      (ex_operator ''query'' [Field (ex_field ''todos'' [Field (ex_field ''id'' [] [])] [])]) =
     Some (Resolved ''{\"todos\":[{\"id\":\"1\"}]}'' [])"
    by (simp add: Resolve_start_def start_def ex_eval)
  show ?thesis
    using h0 h1 h2 start
      Resolve_operator_choice [where parse = ex_parse and query = "''#''" and n = ex_fuel
        and e = ex_env and s = ?s and operatorTarget = "''A''", OF h0]
      Resolve_operator_choice [where parse = ex_parse and query = "''{todos{id}}''" and n = ex_fuel
        and e = ex_env and s = ?s and operatorTarget = "''A''", OF h1]
      Resolve_operator_choice [where parse = ex_parse and query = "''query A{} query B{}''"
        and n = ex_fuel and e = ex_env and s = ?s and operatorTarget = "[]", OF h2]
      Resolve_operator_choice [where parse = ex_parse and query = "''query A{} query B{}''"
        and n = ex_fuel and e = ex_env and s = ?s and operatorTarget = "''C''", OF h2]
    by (simp add: Join_def)
qed

section \<open>The serialiser: properties\<close>

lemma valueToJson_bool:
  "valueToJson e (GBool True) = (''true'', None)" "valueToJson e (GBool False) = (''false'', None)"
  by simp_all

lemma valueToJson_integers:
  "valueToJson e (GInt a) = (formatInt (sint a), None)"
  "valueToJson e (GInt8 b) = (formatInt (sint b), None)"
  "valueToJson e (GInt16 c) = (formatInt (sint c), None)"
  "valueToJson e (GInt32 d) = (formatInt (sint d), None)"
  "valueToJson e (GInt64 a) = (formatInt (sint a), None)"
  "valueToJson e (GUint a) = (formatInt (uint a), None)"
  "valueToJson e (GUint8 b) = (formatInt (uint b), None)"
  "valueToJson e (GUint16 c) = (formatInt (uint c), None)"
  "valueToJson e (GUint32 d) = (formatInt (uint d), None)"
  "valueToJson e (GUint64 a) = (formatInt (uint a), None)"
  "valueToJson e (GUintptr a) = (formatInt (uint a), None)"
  by simp_all

lemma valueToJson_pointers:
  "switchType t \<Longrightarrow> valueToJson e (GNilPtr t) = (''null'', None)"
  "switchValue v \<Longrightarrow> valueToJson e (GPtrTo v) = valueToJson e v"
  by simp_all

lemma valueToJson_unsupported:
  "valueToJson e GInvalid = (''null'', Some ''invalid data type'')"
  "valueToJson e (GSlice xs) = (''null'', Some ''invalid data type'')"
  "valueToJson e (GArray ys) = (''null'', Some ''invalid data type'')"
  "valueToJson e (GStruct fs ms) = (''null'', Some ''invalid data type'')"
  "valueToJson e (GFunc f) = (''null'', Some ''invalid data type'')"
  "valueToJson e (GInterface i) = (''null'', Some ''invalid data type'')"
  "valueToJson e (GError m) = (''null'', Some ''invalid data type'')"
  "valueToJson e (GNamed n v) = (''null'', Some ''invalid data type'')"
  "\<not> switchType t \<Longrightarrow> valueToJson e (GNilPtr t) = (''null'', Some ''invalid data type'')"
  "\<not> switchValue v \<Longrightarrow> valueToJson e (GPtrTo v) = (''null'', Some ''invalid data type'')"
  by (simp_all add: invalidDataType_def)

text \<open>
  C7. Booleans, integers of every width, nil and non-nil pointers and the values of
  unsupported types are serialised as the claim says (\<open>valueToJson_bool\<close>,
  \<open>valueToJson_integers\<close>, \<open>valueToJson_pointers\<close>, \<open>valueToJson_unsupported\<close>). A
  string is written with \<open>%q\<close>, the syntax of Go: for the string of the one character
  \<open>0x07\<close> the result is the four characters \<open>"\a"\<close>, which is not a string of JSON.
\<close>

theorem valueToJson_string_not_json:
  "valueToJson e (GString [CHR 0x07]) = ([dquote, backslash, CHR ''a'', dquote], None) \<and>
   \<not> jsonString (fst (valueToJson e (GString [CHR 0x07])))"
  by (simp add: Quote_def appendEscapedRune_def jsonString_def dquote_def backslash_def)

section \<open>Arrays and slices\<close>

lemma IsNil_array: "Kind val = KArray \<Longrightarrow> IsNil val = None"
  by (induction val) simp_all

lemma resolveFieldDataValue_array_panics:
  "valueType codeStructure = valueTypeArray \<Longrightarrow> Kind val = KArray \<Longrightarrow>
   resolveFieldDataValue (Suc n) e ctx query val codeStructure dept = Some Panic"
  by (simp add: IsNil_array)

lemma slice_reflect:
  "underlying val = GSlice (Some xs) \<Longrightarrow>
   Kind val = KSlice \<and> IsNil val = Some False \<and> elements val = xs"
  by (induction val) (simp_all add: elements_def)

lemma resolveFieldDataValue_elements_length:
  "resolveFieldDataValue_elements rv xs list ctx = Some (Return list' ctx') \<Longrightarrow>
   length list' = length list + length xs"
proof (induction xs arbitrary: list ctx)
  case Nil
  then show ?case by simp
next
  case (Cons x xs)
  then show ?case
    by (auto split: option.splits outcome.splits prod.splits)
qed

lemma resolveFieldDataValue_slice:
  assumes "valueType codeStructure = valueTypeArray" and "underlying val = GSlice (Some xs)"
    and "innerContent codeStructure = Some inner"
  shows "resolveFieldDataValue (Suc n) e ctx query val codeStructure dept =
     (case resolveFieldDataValue_elements (\<lambda>c x. resolveFieldDataValue n e c query x inner dept)
             xs [] ctx of
        None \<Rightarrow> None
      | Some Panic \<Rightarrow> Some Panic
      | Some (Return list ctx') \<Rightarrow> Some (Return (''['' @ Join list '','' @ '']'', False) ctx'))"
  using assms slice_reflect [OF assms(2)] by simp

text \<open>
  C8. For a non-nil slice the field is the bracketed, comma-joined list of the results of
  its elements, one each, with the errored flag unset
  (\<open>resolveFieldDataValue_slice\<close>, \<open>resolveFieldDataValue_elements_length\<close>). For a
  value of kind array the test \<open>value.IsNil()\<close> panics
  (\<open>resolveFieldDataValue_array_panics\<close>): the field \<open>flags\<close> of the example, the array
  \<open>[1]bool{true}\<close>, makes the executor panic instead of returning \<open>[true]\<close>.
\<close>

theorem resolveFieldDataValue_array_panic:
  "resolveFieldDataValue (Suc 0) ex_env (ex_ctx 255 []) (ex_field ''flags'' [] [])
       (GArray [GBool True]) (MkObj [] valueTypeArray [] (Some (ex_data [])) None [] ''Flags'' None) 1
     = Some Panic \<and>
   resolveSelection ex_fuel ex_env (ex_ctx 255 []) [Field (ex_field ''flags'' [] [])]
       (ex_rootValue []) ex_Root 0
     = Some Panic"
  by (simp add: ex_eval)

section \<open>Depth\<close>

































end
